theory Spec2Isabelle
  imports Complex_Main "HOL-Library.AList" "HOL-Library.Monad_Syntax"
begin

section \<open>The Khepera3 supervisor: odometry and unicycle conversion\<close>

text \<open>
  The embedding follows \<^verbatim>\<open>supervisors/khepera3.py\<close>. Python numbers are read as
  mathematical numbers: a float is a \<^typ>\<open>real\<close>, an encoder tick count is an
  \<^typ>\<open>int\<close>, and \<^verbatim>\<open>/\<close> is true division. In this reading the rounding of binary
  floating point is left out; the unicycle conversion is embedded a second time below,
  in binary64 arithmetic, for the property that rounding decides. A division by a zero
  divisor raises in Python, so every division by a geometry constant is a branch
  returning \<open>ZeroDivisionError\<close>.
\<close>

datatype error =
    ZeroDivisionError
  | KeyError string
  | ValueError
  | TypeError
  | IndexError
  | ConfigurationError

text \<open>\<^verbatim>\<open>robot_info.wheels\<close>: the geometry constants and the current encoder readings.\<close>

record wheels =
  radius :: real
  base_length :: real
  ticks_per_rev :: int
  left_ticks :: int
  right_ticks :: int

record robot_info =
  wheels :: wheels

text \<open>\<^verbatim>\<open>Pose(x, y, theta)\<close>; the source unpacks it as \<^verbatim>\<open>x, y, theta = self.pose_est\<close>.\<close>

record pose =
  x :: real
  y :: real
  theta :: real

text \<open>
  The attributes of the base class that \<^verbatim>\<open>K3Supervisor\<close> reads (\<^verbatim>\<open>self.robot\<close>,
  \<^verbatim>\<open>self.pose_est\<close>), extended by the two memory registers that
  \<^verbatim>\<open>K3Supervisor.__init__\<close> adds. The record stays extensible: its \<open>more\<close> part
  stands for every further attribute of the object.
\<close>

record supervisor =
  robot :: robot_info
  pose_est :: pose

record K3Supervisor = supervisor +
  left_ticks :: int
  right_ticks :: int

text \<open>
  Modelled from the spec: \<^verbatim>\<open>Supervisor.__init__\<close>, the constructor of the base class in
  \<^verbatim>\<open>supervisor.py\<close>, which is not among the source files. The spec asks for a
  \<open>ConfigurationError\<close> at construction when the wheel radius or the base length is not
  positive; otherwise the supervisor owns the initial pose estimate and the robot
  information.
\<close>

definition Supervisor_init :: "pose \<Rightarrow> robot_info \<Rightarrow> error + supervisor" where
  "Supervisor_init robot_pose info =
     (if radius (wheels info) \<le> 0 \<or> base_length (wheels info) \<le> 0
      then Inl ConfigurationError
      else Inr \<lparr>robot = info, pose_est = robot_pose\<rparr>)"

text \<open>
  \<^verbatim>\<open>K3Supervisor.__init__\<close>: the base constructor runs first (an exception it raises
  ends the construction), then the memory registers take the current tick counts.
\<close>

definition K3Supervisor_init :: "pose \<Rightarrow> robot_info \<Rightarrow> error + K3Supervisor" where
  "K3Supervisor_init robot_pose info =
     (case Supervisor_init robot_pose info of
        Inl e \<Rightarrow> Inl e
      | Inr s \<Rightarrow>
          Inr (supervisor.extend s
                 (K3Supervisor.fields (wheels.left_ticks (wheels info))
                                      (wheels.right_ticks (wheels info)))))"

text \<open>
  \<^verbatim>\<open>K3Supervisor.uni2diff\<close>. The result is the pair \<^verbatim>\<open>(vl, vr)\<close>, in this order. The
  division by the literal \<open>2\<close> cannot fail; the divisions by the radius raise when the
  radius is zero.
\<close>

definition uni2diff :: "'a K3Supervisor_scheme \<Rightarrow> real \<times> real \<Rightarrow> error + real \<times> real" where
  "uni2diff self uni =
     (case uni of (v, w) \<Rightarrow>
        if radius (wheels (robot self)) = 0 then Inl ZeroDivisionError
        else
          let vr = (base_length (wheels (robot self)) * w + 2 * v) / 2 / radius (wheels (robot self));
              vl = vr - base_length (wheels (robot self)) * w / radius (wheels (robot self))
          in Inr (vl, vr))"

text \<open>
  \<^verbatim>\<open>K3Supervisor.estimate_pose\<close>. The method first moves the memory registers to the
  new tick counts and then computes the pose, so the model returns the outcome (the
  pose, or the exception) together with the object after the call: an exception raised
  by a division leaves the registers already updated. The docstring of the method
  reads \<^verbatim>\<open>Update self.pose_est\<close>; its body assigns to \<^verbatim>\<open>self.left_ticks\<close> and
  \<^verbatim>\<open>self.right_ticks\<close> only and hands the pose back with \<^verbatim>\<open>return\<close>.
\<close>

definition estimate_pose :: "'a K3Supervisor_scheme \<Rightarrow> (error + pose) \<times> 'a K3Supervisor_scheme" where
  "estimate_pose self =
     (let dtl = wheels.left_ticks (wheels (robot self)) - left_ticks self;
          dtr = wheels.right_ticks (wheels (robot self)) - right_ticks self;
          self' = self\<lparr>left_ticks := left_ticks self + dtl,
                       right_ticks := right_ticks self + dtr\<rparr>;
          x0 = x (pose_est self');
          y0 = y (pose_est self');
          theta0 = theta (pose_est self');
          R = radius (wheels (robot self'));
          L = base_length (wheels (robot self'))
      in if ticks_per_rev (wheels (robot self')) = 0 then (Inl ZeroDivisionError, self')
         else
           let m_per_tick = (2 * pi * R) / of_int (ticks_per_rev (wheels (robot self')));
               dl = of_int dtl * m_per_tick;
               dr = of_int dtr * m_per_tick
           in if L = 0 then (Inl ZeroDivisionError, self')
              else
                let theta_dt = (dr - dl) / L;
                    theta_mid = theta0 + theta_dt / 2;
                    dst = (dr + dl) / 2;
                    x_dt = dst * cos theta_mid;
                    y_dt = dst * sin theta_mid;
                    theta_new = theta0 + theta_dt;
                    x_new = x0 + x_dt;
                    y_new = y0 + y_dt
                in (Inr \<lparr>x = x_new, y = y_new, theta = theta_new\<rparr>, self'))"

section \<open>The unicycle conversion in binary64 arithmetic\<close>

text \<open>
  A Python float is an IEEE 754 binary64 number, and each of \<^verbatim>\<open>+\<close>, \<^verbatim>\<open>-\<close>, \<^verbatim>\<open>*\<close>,
  \<^verbatim>\<open>/\<close> returns the exact result rounded to the nearest such number, ties going to the
  even significand. \<open>rne\<close> rounds a real to the nearest integer in this way.
\<close>

definition rne :: "real \<Rightarrow> int" where
  "rne r =
     (let f = \<lfloor>r\<rfloor>
      in if r - of_int f < 1 / 2 then f
         else if 1 / 2 < r - of_int f then f + 1
         else if even f then f else f + 1)"

text \<open>
  \<open>binary64 a\<close> is the float an operation returns when its exact result is \<open>a\<close>: zero
  stays zero; otherwise \<open>a\<close> lies in one binade, \<open>2 ^ k \<le> \<bar>a\<bar> < 2 ^ (k + 1)\<close>, and
  is rounded to a multiple of \<open>2 ^ (k - 52)\<close>, which leaves 53 significant bits. The
  model covers the normal numbers only: a result below \<open>2 ^ (-1022)\<close> in magnitude
  (a subnormal) or one that rounds to \<open>2 ^ 1024\<close> or beyond (an infinity) is \<open>None\<close>.
  Python raises nothing in either case. The sign of a zero is not kept.
\<close>

definition binary64 :: "real \<Rightarrow> real option" where
  "binary64 a =
     (if a = 0 then Some 0
      else
        let e = \<lfloor>log 2 \<bar>a\<bar>\<rfloor> - 52;
            b = of_int (rne (a / 2 powi e)) * 2 powi e
        in if \<bar>a\<bar> < 2 powi (- 1022) \<or> 2 powi 1024 \<le> \<bar>b\<bar> then None else Some b)"

text \<open>
  \<^verbatim>\<open>K3Supervisor.uni2diff\<close> once more, operation by operation in the order Python
  evaluates them: \<^verbatim>\<open>(L*w + 2*v)/2/R\<close> is a product, a product, a sum and two divisions,
  and \<^verbatim>\<open>vr - L*w/R\<close> computes the product again, divides and subtracts. The command
  and the geometry are floats already. A zero radius raises \<^verbatim>\<open>ZeroDivisionError\<close>
  whatever the earlier operations returned. The result is \<open>None\<close> when an operation
  leaves the normal numbers.
\<close>

definition uni2diff_binary64 ::
    "'a K3Supervisor_scheme \<Rightarrow> real \<times> real \<Rightarrow> (error + real \<times> real) option" where
  "uni2diff_binary64 self uni =
     (case uni of (v, w) \<Rightarrow>
        if radius (wheels (robot self)) = 0 then Some (Inl ZeroDivisionError)
        else do {
          t1 \<leftarrow> binary64 (base_length (wheels (robot self)) * w);
          t2 \<leftarrow> binary64 (2 * v);
          t3 \<leftarrow> binary64 (t1 + t2);
          t4 \<leftarrow> binary64 (t3 / 2);
          vr \<leftarrow> binary64 (t4 / radius (wheels (robot self)));
          t5 \<leftarrow> binary64 (base_length (wheels (robot self)) * w);
          t6 \<leftarrow> binary64 (t5 / radius (wheels (robot self)));
          vl \<leftarrow> binary64 (vr - t6);
          Some (Inr (vl, vr))
        })"

section \<open>The parameter tree of the parameter window\<close>

text \<open>
  The embedding follows the entry classes of \<^verbatim>\<open>gui/qt/paramwindow.py\<close>: the value
  entries and \<^verbatim>\<open>Group\<close>, with their methods \<^verbatim>\<open>get_value\<close> and \<^verbatim>\<open>set_value\<close>. The tree
  is taken after its widgets exist. Python values that travel through \<^verbatim>\<open>set_value\<close> and
  \<^verbatim>\<open>get_value\<close> are numbers, booleans, strings and lists of \<^verbatim>\<open>(key, value)\<close> pairs.
\<close>

datatype pyval =
    PInt int
  | PFloat real
  | PBool bool
  | PStr string
  | PList "(string \<times> pyval) list"

text \<open>
  The state of a \<^verbatim>\<open>QSpinBox\<close> or \<^verbatim>\<open>QDoubleSpinBox\<close>: the range given by
  \<^verbatim>\<open>setMinimum\<close> and \<^verbatim>\<open>setMaximum\<close>, and the current value. The toolkit's
  \<^verbatim>\<open>setValue\<close> raises nothing on a number outside the range: it lifts a value below the
  minimum to the minimum, then lowers a value above the maximum to the maximum, and
  stores the result. The rounding of a \<^verbatim>\<open>QDoubleSpinBox\<close> to its display precision, like
  floating-point rounding, is outside the model.
\<close>

record 'a spinbox =
  minimum :: 'a
  maximum :: 'a
  spin_value :: 'a

definition setValue :: "('a::linorder) spinbox \<Rightarrow> 'a \<Rightarrow> 'a spinbox" where
  "setValue control v =
     (let v1 = (if v < minimum control then minimum control else v);
          v2 = (if maximum control < v1 then maximum control else v1)
      in control\<lparr>spin_value := v2\<rparr>)"

text \<open>Python's \<^verbatim>\<open>list.index\<close>: the first position of the element; \<open>None\<close> is its \<^verbatim>\<open>ValueError\<close>.\<close>

fun index :: "'a list \<Rightarrow> 'a \<Rightarrow> nat option" where
  "index [] a = None"
| "index (b # bs) a = (if b = a then Some 0 else map_option Suc (index bs a))"

text \<open>
  \<^verbatim>\<open>self.radios\<close> of a \<^verbatim>\<open>ChoiceEntry\<close>: one radio button for each element of the value
  list, with its text and its checked state. \<open>checked_text\<close> is the loop of
  \<^verbatim>\<open>ChoiceEntry.get_value\<close>: the text of the first checked button. \<open>toggle\<close> is
  \<^verbatim>\<open>self.radios[i].toggle()\<close>: the list access raises \<^verbatim>\<open>IndexError\<close> out of range; the
  buttons share a parent and are exclusive, so a checked button stays checked, and an
  unchecked one becomes the only checked button.
\<close>

type_synonym radio = "string \<times> bool"

fun checked_text :: "radio list \<Rightarrow> string option" where
  "checked_text [] = None"
| "checked_text ((text, checked) # rs) = (if checked then Some text else checked_text rs)"

definition toggle :: "radio list \<Rightarrow> nat \<Rightarrow> error + radio list" where
  "toggle radios i =
     (if length radios \<le> i then Inl IndexError
      else if snd (radios ! i) then Inr radios
      else Inr ((map (\<lambda>r. (fst r, False)) radios)[i := (fst (radios ! i), True)]))"

text \<open>
  The entries. A spin box entry holds \<^verbatim>\<open>self.ui.value\<close> and \<^verbatim>\<open>self.control\<close>; a
  \<^verbatim>\<open>BoolEntry\<close> holds \<^verbatim>\<open>self.ui.value\<close> and the checked state of its check box; a
  \<^verbatim>\<open>ChoiceEntry\<close> holds \<^verbatim>\<open>self.ui.value_list\<close>, \<^verbatim>\<open>self.ui.value\<close> (any Python value
  can be assigned to it) and \<^verbatim>\<open>self.radios\<close>; a \<^verbatim>\<open>Group\<close> holds \<^verbatim>\<open>self.leafs\<close>, an
  ordered dictionary, kept as an association list in insertion order.
\<close>

datatype entry =
    IntEntry int "int spinbox"
  | FloatEntry real "real spinbox"
  | BoolEntry bool bool
  | ChoiceEntry "string list" pyval "radio list"
  | Group "(string \<times> entry) list"

text \<open>
  \<^verbatim>\<open>get_value\<close>: a spin box returns \<^verbatim>\<open>control.value()\<close>, a check box
  \<^verbatim>\<open>control.isChecked()\<close>, a choice the text of its first checked radio button and
  \<^verbatim>\<open>self.ui.value\<close> when none is checked, a group the list of its keys paired with the
  values of its leafs.
\<close>

fun get_value :: "entry \<Rightarrow> pyval"
  and Group_get_value :: "(string \<times> entry) list \<Rightarrow> (string \<times> pyval) list" where
  "get_value (IntEntry ui_value control) = PInt (spin_value control)"
| "get_value (FloatEntry ui_value control) = PFloat (spin_value control)"
| "get_value (BoolEntry ui_value checked) = PBool checked"
| "get_value (ChoiceEntry value_list ui_value radios) =
     (case checked_text radios of Some text \<Rightarrow> PStr text | None \<Rightarrow> ui_value)"
| "get_value (Group leafs) = PList (Group_get_value leafs)"
| "Group_get_value [] = []"
| "Group_get_value ((key, leaf) # leafs) = (key, get_value leaf) # Group_get_value leafs"

text \<open>
  \<^verbatim>\<open>set_value\<close>. The result is the exception raised, if any, and the entry after the
  call: the methods mutate in place and nothing is undone when an exception leaves the
  loop of \<^verbatim>\<open>Group.set_value\<close>.
  \<^item> A spin box calls \<^verbatim>\<open>control.setValue\<close>; when the stored value changes, the signal
    \<^verbatim>\<open>valueChanged\<close> runs \<^verbatim>\<open>update_slot\<close>, which copies it to \<^verbatim>\<open>self.ui.value\<close>. A
    \<^verbatim>\<open>QDoubleSpinBox\<close> takes a Python int as well as a float.
  \<^item> A check box calls \<^verbatim>\<open>control.setChecked\<close>; no signal is connected.
  \<^item> A choice assigns \<^verbatim>\<open>self.ui.value\<close> first, then looks the value up with
    \<^verbatim>\<open>value_list.index\<close> (\<^verbatim>\<open>ValueError\<close> when absent; a value that is not a string equals
    no element) and toggles the radio button at that position.
  \<^item> A group iterates over the pairs: a known key forwards the value to its leaf, an
    unknown key raises \<^verbatim>\<open>KeyError\<close> with the key in its message. Iterating over a number
    or a boolean is a \<^verbatim>\<open>TypeError\<close>; a string yields its characters, and unpacking the
    first one into \<^verbatim>\<open>k, v\<close> is a \<^verbatim>\<open>ValueError\<close>.
  A value of another kind than the widget's is refused by the toolkit binding with a
  \<^verbatim>\<open>TypeError\<close>; the binding's own conversions between booleans and numbers are not
  modelled.
\<close>

fun set_value :: "entry \<Rightarrow> pyval \<Rightarrow> error option \<times> entry"
  and Group_set_value ::
    "(string \<times> entry) list \<Rightarrow> (string \<times> pyval) list \<Rightarrow> error option \<times> (string \<times> entry) list" where
  "set_value (IntEntry ui_value control) (PInt n) =
     (let control' = setValue control n
      in (None, IntEntry (if spin_value control' \<noteq> spin_value control
                          then spin_value control' else ui_value) control'))"
| "set_value (IntEntry ui_value control) _ = (Some TypeError, IntEntry ui_value control)"
| "set_value (FloatEntry ui_value control) (PFloat r) =
     (let control' = setValue control r
      in (None, FloatEntry (if spin_value control' \<noteq> spin_value control
                            then spin_value control' else ui_value) control'))"
| "set_value (FloatEntry ui_value control) (PInt n) =
     (let control' = setValue control (of_int n)
      in (None, FloatEntry (if spin_value control' \<noteq> spin_value control
                            then spin_value control' else ui_value) control'))"
| "set_value (FloatEntry ui_value control) _ = (Some TypeError, FloatEntry ui_value control)"
| "set_value (BoolEntry ui_value checked) (PBool b) = (None, BoolEntry ui_value b)"
| "set_value (BoolEntry ui_value checked) _ = (Some TypeError, BoolEntry ui_value checked)"
| "set_value (ChoiceEntry value_list ui_value radios) (PStr s) =
     (case index value_list s of
        None \<Rightarrow> (Some ValueError, ChoiceEntry value_list (PStr s) radios)
      | Some i \<Rightarrow>
          (case toggle radios i of
             Inl e \<Rightarrow> (Some e, ChoiceEntry value_list (PStr s) radios)
           | Inr radios' \<Rightarrow> (None, ChoiceEntry value_list (PStr s) radios')))"
| "set_value (ChoiceEntry value_list ui_value radios) v =
     (Some ValueError, ChoiceEntry value_list v radios)"
| "set_value (Group leafs) (PList updates) =
     (case Group_set_value leafs updates of (outcome, leafs') \<Rightarrow> (outcome, Group leafs'))"
| "set_value (Group leafs) (PStr s) = (if s = [] then None else Some ValueError, Group leafs)"
| "set_value (Group leafs) _ = (Some TypeError, Group leafs)"
| "Group_set_value leafs [] = (None, leafs)"
| "Group_set_value leafs ((k, v) # updates) =
     (case map_of leafs k of
        None \<Rightarrow> (Some (KeyError k), leafs)
      | Some leaf \<Rightarrow>
          (case set_value leaf v of
             (Some e, leaf') \<Rightarrow> (Some e, AList.update k leaf' leafs)
           | (None, leaf') \<Rightarrow> Group_set_value (AList.update k leaf' leafs) updates))"

text \<open>
  The valid states of a tree, as its construction leaves them: a spin box value lies
  within its range, the radio buttons carry the texts of the value list and either one
  of them is checked or \<^verbatim>\<open>self.ui.value\<close> is one of the listed strings, and the keys of a
  group are pairwise different.
\<close>

fun valid :: "entry \<Rightarrow> bool"
  and Group_valid :: "(string \<times> entry) list \<Rightarrow> bool" where
  "valid (IntEntry ui_value control) =
     (minimum control \<le> spin_value control \<and> spin_value control \<le> maximum control)"
| "valid (FloatEntry ui_value control) =
     (minimum control \<le> spin_value control \<and> spin_value control \<le> maximum control)"
| "valid (BoolEntry ui_value checked) = True"
| "valid (ChoiceEntry value_list ui_value radios) =
     (map fst radios = value_list \<and>
      (checked_text radios \<noteq> None \<or> ui_value \<in> PStr ` set value_list))"
| "valid (Group leafs) = (distinct (map fst leafs) \<and> Group_valid leafs)"
| "Group_valid [] = True"
| "Group_valid ((key, leaf) # leafs) = (valid leaf \<and> Group_valid leafs)"

text \<open>
  Setting an entry to the value just read from it raises nothing and leaves the value
  read afterwards the same. The property has a name so that the induction over the
  tree can carry it from the leafs to their group.
\<close>

definition roundtrips :: "entry \<Rightarrow> bool" where
  "roundtrips e \<longleftrightarrow>
     fst (set_value e (get_value e)) = None
     \<and> get_value (snd (set_value e (get_value e))) = get_value e"

section \<open>Concrete inputs\<close>

text \<open>
  A supervisor with wheel radius 0.02 m, base length 0.1 m and 100 ticks per
  revolution, at the origin with both registers at zero, whose robot reports the given
  tick counts.
\<close>

definition example_supervisor :: "int \<Rightarrow> int \<Rightarrow> K3Supervisor" where
  "example_supervisor new_left new_right =
     \<lparr>robot = \<lparr>wheels = \<lparr>radius = 1 / 50, base_length = 1 / 10, ticks_per_rev = 100,
                          wheels.left_ticks = new_left, wheels.right_ticks = new_right\<rparr>\<rparr>,
      pose_est = \<lparr>x = 0, y = 0, theta = 0\<rparr>,
      left_ticks = 0, right_ticks = 0\<rparr>"

text \<open>
  The same geometry in floats: the radius and the base length are the binary64 numbers
  nearest to 0.02 and 0.1.
\<close>

definition example_supervisor_binary64 :: K3Supervisor where
  "example_supervisor_binary64 =
     \<lparr>robot = \<lparr>wheels = \<lparr>radius = 5764607523034235 / 2 ^ 58,
                          base_length = 3602879701896397 / 2 ^ 55,
                          ticks_per_rev = 100,
                          wheels.left_ticks = 0, wheels.right_ticks = 0\<rparr>\<rparr>,
      pose_est = \<lparr>x = 0, y = 0, theta = 0\<rparr>,
      left_ticks = 0, right_ticks = 0\<rparr>"

text \<open>A nested tree holding one entry of each kind.\<close>

definition example_tree :: entry where
  "example_tree =
     Group [(''goal'', Group [(''x'', FloatEntry (-5) \<lparr>minimum = -10, maximum = 10, spin_value = -5\<rparr>),
                              (''y'', FloatEntry 5 \<lparr>minimum = -10, maximum = 10, spin_value = 5\<rparr>)]),
            (''laps'', IntEntry 3 \<lparr>minimum = 0, maximum = 9, spin_value = 4\<rparr>),
            (''reverse'', BoolEntry False True),
            (''mode'', ChoiceEntry [''pid'', ''bang''] (PStr ''pid'')
                                   [(''pid'', False), (''bang'', True)])]"

section \<open>The unicycle conversion\<close>

text \<open>
  Claim C2. For every unicycle command \<open>(v, w)\<close> and every geometry with wheel radius
  \<open>R > 0\<close> and base length \<open>L\<close>, \<^verbatim>\<open>uni2diff\<close> returns \<open>vr = (L*w + 2*v) / (2*R)\<close> and
  \<open>vl = vr - L*w/R\<close>, as the pair \<open>(vl, vr)\<close>.
\<close>

theorem uni2diff_formula:
  "0 < radius (wheels (robot self)) \<Longrightarrow>
   (let R = radius (wheels (robot self));
        L = base_length (wheels (robot self));
        vr = (L * w + 2 * v) / (2 * R);
        vl = vr - L * w / R
    in uni2diff self (v, w) = Inr (vl, vr))"
  by (simp add: uni2diff_def Let_def)

theorem uni2diff_formula_witness:
  "uni2diff (example_supervisor 0 0) (1, 2) = Inr (45, 55)"
  using uni2diff_formula [of "example_supervisor 0 0" 2 1]
  by (simp add: example_supervisor_def Let_def)

text \<open>
  Claim C8. For every linear velocity \<open>v\<close> and every geometry with \<open>R > 0\<close>, the
  command \<open>(v, 0)\<close> is converted to equal wheel speeds \<open>vl = vr = v / R\<close>.
\<close>

theorem uni2diff_straight:
  "0 < radius (wheels (robot self)) \<Longrightarrow>
   uni2diff self (v, 0) = Inr (v / radius (wheels (robot self)), v / radius (wheels (robot self)))"
  by (simp add: uni2diff_def Let_def)

theorem uni2diff_straight_witness:
  "uni2diff (example_supervisor 0 0) (1, 0) = Inr (50, 50)"
  using uni2diff_straight [of "example_supervisor 0 0" 1]
  by (simp add: example_supervisor_def)

text \<open>
  Read in exact arithmetic, the wheel speeds give the command back under the forward
  kinematics of the differential drive; whatever separates the two in the program is
  rounding.
\<close>

lemma uni2diff_inverse_exact:
  assumes R: "0 < radius (wheels (robot self))"
      and L: "0 < base_length (wheels (robot self))"
  shows "\<exists>vl vr. uni2diff self (v, w) = Inr (vl, vr)
           \<and> (vr + vl) * radius (wheels (robot self)) / 2 = v
           \<and> (vr - vl) * radius (wheels (robot self)) / base_length (wheels (robot self)) = w"
proof -
  define R where "R = radius (wheels (robot self))"
  define L where "L = base_length (wheels (robot self))"
  define vr where "vr = (L * w + 2 * v) / 2 / R"
  define vl where "vl = vr - L * w / R"
  from R L have pos: "R \<noteq> 0" "L \<noteq> 0"
    by (simp_all add: R_def L_def)
  have run: "uni2diff self (v, w) = Inr (vl, vr)"
    using pos by (simp add: uni2diff_def Let_def vl_def vr_def R_def L_def)
  have lin: "(vr + vl) * R / 2 = v"
    using pos by (simp add: vl_def vr_def field_simps)
  have ang: "(vr - vl) * R / L = w"
    using pos by (simp add: vl_def field_simps)
  from run lin ang show ?thesis
    unfolding R_def L_def by blast
qed

subsection \<open>Rounding to binary64\<close>

lemma rne_close: "\<bar>of_int (rne r) - r\<bar> \<le> 1 / 2"
  unfolding rne_def Let_def by (auto; linarith)

lemma rne_eqI: "\<bar>r - of_int n\<bar> < 1 / 2 \<Longrightarrow> rne r = n"
proof -
  assume near: "\<bar>r - of_int n\<bar> < 1 / 2"
  show ?thesis
  proof (cases "of_int n \<le> r")
    case True
    with near have "\<lfloor>r\<rfloor> = n" by (intro floor_unique) linarith+
    with near True show ?thesis by (simp add: rne_def Let_def)
  next
    case False
    with near have "\<lfloor>r\<rfloor> = n - 1" by (intro floor_unique) (simp, linarith+)
    with near False show ?thesis by (auto simp add: rne_def Let_def)
  qed
qed

lemma two_powr_int: "(2::real) powr (of_int k) = 2 powi k"
  by (simp add: powr_real_of_int')

lemma binade_iff:
  assumes "a \<noteq> 0"
  shows "\<lfloor>log 2 \<bar>a\<bar>\<rfloor> = k \<longleftrightarrow> 2 powi k \<le> \<bar>a\<bar> \<and> \<bar>a\<bar> < 2 powi (k + 1)"
proof -
  have "real_of_int k + 1 = real_of_int (k + 1)" by simp
  then have "(2::real) powr (real_of_int k + 1) = 2 powi (k + 1)"
    by (simp only: two_powr_int)
  with floor_log_eq_powr_iff [of "\<bar>a\<bar>" 2 k] assms show ?thesis
    by (simp add: two_powr_int)
qed

text \<open>The result of an operation is within the relative error \<open>2 ^ (-53)\<close> of the exact one.\<close>

lemma binary64_error:
  assumes "binary64 a = Some b"
  shows "\<bar>b - a\<bar> \<le> \<bar>a\<bar> / 2 ^ 53"
proof (cases "a = 0")
  case True
  with assms show ?thesis by (simp add: binary64_def)
next
  case False
  define k where "k = \<lfloor>log 2 \<bar>a\<bar>\<rfloor>"
  define e where "e = k - 52"
  from False have lo: "2 powi k \<le> \<bar>a\<bar>"
    using binade_iff [of a k] by (simp add: k_def)
  have pos: "(0::real) < 2 powi e" by simp
  from assms False have b: "b = of_int (rne (a / 2 powi e)) * 2 powi e"
    by (auto simp add: binary64_def Let_def e_def k_def split: if_splits)
  have "b - a = (of_int (rne (a / 2 powi e)) - a / 2 powi e) * 2 powi e"
    using pos by (simp add: b field_simps)
  then have "\<bar>b - a\<bar> = \<bar>of_int (rne (a / 2 powi e)) - a / 2 powi e\<bar> * 2 powi e"
    using pos by (simp add: abs_mult)
  also have "\<dots> \<le> 1 / 2 * 2 powi e"
    using rne_close [of "a / 2 powi e"] pos by (intro mult_right_mono) simp_all
  also have "\<dots> = 2 powi k / 2 ^ 53"
    by (simp add: e_def power_int_diff)
  also have "\<dots> \<le> \<bar>a\<bar> / 2 ^ 53"
    using lo by (simp add: divide_right_mono)
  finally show ?thesis .
qed

text \<open>
  The value of \<open>binary64\<close> at a given number, from a significand \<open>n\<close> and an exponent
  \<open>e\<close> that fit it.
\<close>

lemma binary64_eqI:
  assumes "2 powi (e + 52) \<le> \<bar>a\<bar>" and "\<bar>a\<bar> < 2 powi (e + 53)"
      and "\<bar>a / 2 powi e - of_int n\<bar> < 1 / 2"
      and "2 powi (- 1022) \<le> \<bar>a\<bar>" and "\<bar>real_of_int n * 2 powi e\<bar> < 2 powi 1024"
  shows "binary64 a = Some (of_int n * 2 powi e)"
proof -
  have "(0::real) < 2 powi (- 1022)" by (rule zero_less_power_int) simp
  with assms(4) have nz: "a \<noteq> 0" by auto
  have "\<lfloor>log 2 \<bar>a\<bar>\<rfloor> = e + 52"
    using binade_iff [OF nz, of "e + 52"] assms(1,2) by (simp add: add.commute add.left_commute)
  then have e: "\<lfloor>log 2 \<bar>a\<bar>\<rfloor> - 52 = e" by simp
  have "rne (a / 2 powi e) = n" using assms(3) by (rule rne_eqI)
  with nz e assms(4,5) show ?thesis
    by (simp add: binary64_def Let_def not_less not_le del: power_int_minus)
qed

subsection \<open>The conversion at the command (0.3, 0.7)\<close>

text \<open>The four decimals as floats.\<close>

lemma binary64_in_v:
  "binary64 (3 / 10) = Some (5404319552844595 / 18014398509481984)"
  using binary64_eqI [where e = "-54" and n = 5404319552844595 and a = "3 / 10"]
  by (simp add: power_int_minus)

lemma binary64_in_w:
  "binary64 (7 / 10) = Some (3152519739159347 / 4503599627370496)"
  using binary64_eqI [where e = "-53" and n = 6305039478318694 and a = "7 / 10"]
  by (simp add: power_int_minus)

lemma binary64_in_R:
  "binary64 (1 / 50) = Some (5764607523034235 / 288230376151711744)"
  using binary64_eqI [where e = "-58" and n = 5764607523034235 and a = "1 / 50"]
  by (simp add: power_int_minus)

lemma binary64_in_L:
  "binary64 (1 / 10) = Some (3602879701896397 / 36028797018963968)"
  using binary64_eqI [where e = "-56" and n = 7205759403792794 and a = "1 / 10"]
  by (simp add: power_int_minus)

text \<open>
  The operations of \<^verbatim>\<open>uni2diff\<close> on these floats, one after the other, and then the
  three operations of \<^verbatim>\<open>(vr + vl) * R / 2\<close>.
\<close>

lemma binary64_t1:
  "binary64 (11358149378044935347338468172759 / 162259276829213363391578010288128) = Some (5044031582654955 / 72057594037927936)"
  using binary64_eqI [where e = "-56" and n = 5044031582654955 and a = "11358149378044935347338468172759 / 162259276829213363391578010288128"]
  by (simp add: power_int_minus)

lemma binary64_t2:
  "binary64 (5404319552844595 / 9007199254740992) = Some (5404319552844595 / 9007199254740992)"
  using binary64_eqI [where e = "-53" and n = 5404319552844595 and a = "5404319552844595 / 9007199254740992"]
  by (simp add: power_int_minus)

lemma binary64_t3:
  "binary64 (48278588005411715 / 72057594037927936) = Some (377176468792279 / 562949953421312)"
  using binary64_eqI [where e = "-53" and n = 6034823500676464 and a = "48278588005411715 / 72057594037927936"]
  by (simp add: power_int_minus)

lemma binary64_t4:
  "binary64 (377176468792279 / 1125899906842624) = Some (377176468792279 / 1125899906842624)"
  using binary64_eqI [where e = "-54" and n = 6034823500676464 and a = "377176468792279 / 1125899906842624"]
  by (simp add: power_int_minus)

lemma binary64_vr:
  "binary64 (96557176010823424 / 5764607523034235) = Some (4714705859903487 / 281474976710656)"
  using binary64_eqI [where e = "-48" and n = 4714705859903487 and a = "96557176010823424 / 5764607523034235"]
  by (simp add: power_int_minus)

lemma binary64_t5:
  "binary64 (4035225266123964 / 1152921504606847) = Some (7881299347898367 / 2251799813685248)"
  using binary64_eqI [where e = "-51" and n = 7881299347898367 and a = "4035225266123964 / 1152921504606847"]
  by (simp add: power_int_minus)

lemma binary64_vl:
  "binary64 (29836347531329529 / 2251799813685248) = Some (3729543441416191 / 281474976710656)"
  using binary64_eqI [where e = "-49" and n = 7459086882832382 and a = "29836347531329529 / 2251799813685248"]
  by (simp add: power_int_minus)

lemma binary64_s:
  "binary64 (4222124650659839 / 140737488355328) = Some (4222124650659839 / 140737488355328)"
  using binary64_eqI [where e = "-48" and n = 8444249301319678 and a = "4222124650659839 / 140737488355328"]
  by (simp add: power_int_minus)

lemma binary64_p:
  "binary64 (24338891524381999250784136588165 / 40564819207303340847894502572032) = Some (2702159776422297 / 4503599627370496)"
  using binary64_eqI [where e = "-53" and n = 5404319552844594 and a = "24338891524381999250784136588165 / 40564819207303340847894502572032"]
  by (simp add: power_int_minus)

lemma binary64_q:
  "binary64 (2702159776422297 / 9007199254740992) = Some (2702159776422297 / 9007199254740992)"
  using binary64_eqI [where e = "-54" and n = 5404319552844594 and a = "2702159776422297 / 9007199254740992"]
  by (simp add: power_int_minus)

lemma uni2diff_binary64_example:
  "uni2diff_binary64 example_supervisor_binary64
       (5404319552844595 / 2 ^ 54, 3152519739159347 / 2 ^ 52)
     = Some (Inr (3729543441416191 / 2 ^ 48, 4714705859903487 / 2 ^ 48))"
  by (simp add: uni2diff_binary64_def example_supervisor_binary64_def
        binary64_t1 binary64_t2 binary64_t3 binary64_t4 binary64_vr binary64_t5 binary64_vl)

text \<open>
  Claim C10. For every command \<open>(v, w)\<close> and every geometry with \<open>R > 0\<close> and
  \<open>L > 0\<close>, the wheel speeds returned by \<^verbatim>\<open>uni2diff\<close> recover the command exactly:
  \<open>(vr + vl) * R / 2 = v\<close> and \<open>(vr - vl) * R / L = w\<close>. With \<open>R = 0.02\<close>,
  \<open>L = 0.1\<close> and the command \<open>(0.3, 0.7)\<close> the method returns
  \<open>vl = 13.249999999999996\<close> and \<open>vr = 16.749999999999996\<close>. The first equation fails
  for these numbers, whether its left side is taken exactly or computed in floats, where
  it is \<open>0.29999999999999993\<close>.
\<close>

theorem uni2diff_binary64_not_inverse:
  "uni2diff_binary64 example_supervisor_binary64
       (5404319552844595 / 2 ^ 54, 3152519739159347 / 2 ^ 52)
     = Some (Inr (3729543441416191 / 2 ^ 48, 4714705859903487 / 2 ^ 48))
   \<and> (4714705859903487 / 2 ^ 48 + 3729543441416191 / 2 ^ 48) * (5764607523034235 / 2 ^ 58) / 2
       \<noteq> (5404319552844595 / 2 ^ 54 :: real)
   \<and> binary64 (4714705859903487 / 2 ^ 48 + 3729543441416191 / 2 ^ 48)
       = Some (4222124650659839 / 2 ^ 47)
   \<and> binary64 (4222124650659839 / 2 ^ 47 * (5764607523034235 / 2 ^ 58))
       = Some (2702159776422297 / 2 ^ 52)
   \<and> binary64 (2702159776422297 / 2 ^ 52 / 2) = Some (2702159776422297 / 2 ^ 53)
   \<and> (2702159776422297 / 2 ^ 53 :: real) \<noteq> 5404319552844595 / 2 ^ 54"
  by (simp add: uni2diff_binary64_example [simplified] binary64_s binary64_p binary64_q)

subsection \<open>How far rounding can move the recovered command\<close>

text \<open>
  Seven rounded operations lie between the command and the wheel speeds. With
  \<open>A = L * w\<close>, \<open>P = vr * R\<close>, \<open>Q\<close> the rounded quotient \<open>L*w / R\<close> times \<open>R\<close> and
  \<open>S = vl * R\<close>, their error bounds add up as follows.
\<close>

lemma recovery_bound:
  fixes A v t1 t2 t3 t4 P Q S :: real
  assumes h1: "\<bar>t1 - A\<bar> \<le> \<bar>A\<bar> / 2 ^ 53"
      and h2: "\<bar>t2 - 2 * v\<bar> \<le> \<bar>2 * v\<bar> / 2 ^ 53"
      and h3: "\<bar>t3 - (t1 + t2)\<bar> \<le> \<bar>t1 + t2\<bar> / 2 ^ 53"
      and h4: "\<bar>t4 - t3 / 2\<bar> \<le> \<bar>t3 / 2\<bar> / 2 ^ 53"
      and h5: "\<bar>P - t4\<bar> \<le> \<bar>t4\<bar> / 2 ^ 53"
      and h6: "\<bar>Q - t1\<bar> \<le> \<bar>t1\<bar> / 2 ^ 53"
      and h7: "\<bar>S - (P - Q)\<bar> \<le> \<bar>P - Q\<bar> / 2 ^ 53"
  shows "\<bar>(P + S) / 2 - v\<bar> \<le> 5 * (\<bar>v\<bar> + \<bar>A\<bar>) / 2 ^ 53
       \<and> \<bar>(P - S) - A\<bar> \<le> 4 * (\<bar>A\<bar> + \<bar>v\<bar>) / 2 ^ 53"
proof -
  define M where "M = \<bar>A\<bar> + 2 * \<bar>v\<bar>"
  have g1: "9007199254740992 * \<bar>t1 - A\<bar> \<le> \<bar>A\<bar>" using h1 by simp
  have g2: "9007199254740992 * \<bar>t2 - 2 * v\<bar> \<le> 2 * \<bar>v\<bar>" using h2 by (simp add: abs_mult)
  have g3: "9007199254740992 * \<bar>t3 - (t1 + t2)\<bar> \<le> \<bar>t1 + t2\<bar>" using h3 by simp
  have g4: "9007199254740992 * \<bar>t4 - t3 / 2\<bar> \<le> \<bar>t3\<bar> / 2" using h4 by simp
  have g5: "9007199254740992 * \<bar>P - t4\<bar> \<le> \<bar>t4\<bar>" using h5 by simp
  have g6: "9007199254740992 * \<bar>Q - t1\<bar> \<le> \<bar>t1\<bar>" using h6 by simp
  have g7: "9007199254740992 * \<bar>S - (P - Q)\<bar> \<le> \<bar>P - Q\<bar>" using h7 by simp
  have a1: "9007199254740992 * \<bar>t1 + t2 - (A + 2 * v)\<bar> \<le> M"
    using g1 g2 unfolding M_def by argo
  have a2: "\<bar>t1 + t2\<bar> \<le> 11 / 10 * M"
    using a1 unfolding M_def by argo
  have a3: "9007199254740992 * \<bar>t3 - (A + 2 * v)\<bar> \<le> 21 / 10 * M"
    using a1 a2 g3 by argo
  have a4: "\<bar>t3\<bar> \<le> 11 / 10 * M"
    using a3 unfolding M_def by argo
  have a5: "9007199254740992 * \<bar>t4 - (A + 2 * v) / 2\<bar> \<le> 16 / 10 * M"
    using a3 a4 g4 by argo
  have a6: "\<bar>t4\<bar> \<le> 6 / 10 * M"
    using a5 unfolding M_def by argo
  have a7: "9007199254740992 * \<bar>P - (A + 2 * v) / 2\<bar> \<le> 22 / 10 * M"
    using a5 a6 g5 by argo
  have a8: "\<bar>P\<bar> \<le> 51 / 100 * M"
    using a7 unfolding M_def by argo
  have b1: "\<bar>t1\<bar> \<le> 11 / 10 * \<bar>A\<bar>"
    using g1 by argo
  have b2: "9007199254740992 * \<bar>Q - A\<bar> \<le> 21 / 10 * \<bar>A\<bar>"
    using g1 g6 b1 by argo
  have b3: "\<bar>Q\<bar> \<le> 101 / 100 * \<bar>A\<bar>"
    using b2 by argo
  have c1: "9007199254740992 * \<bar>S - (P - Q)\<bar> \<le> 51 / 100 * M + 101 / 100 * \<bar>A\<bar>"
    using g7 a8 b3 by argo
  have r1: "9007199254740992 * \<bar>(P + S) / 2 - v\<bar> \<le> 5 * (\<bar>v\<bar> + \<bar>A\<bar>)"
    using a7 b2 c1 unfolding M_def by argo
  have r2: "9007199254740992 * \<bar>(P - S) - A\<bar> \<le> 4 * (\<bar>A\<bar> + \<bar>v\<bar>)"
    using b2 c1 unfolding M_def by argo
  from r1 r2 show ?thesis by simp
qed

lemma scaled_error:
  fixes a b r :: real
  assumes "\<bar>b - a / r\<bar> \<le> \<bar>a / r\<bar> / 2 ^ 53" and "r \<noteq> 0"
  shows "\<bar>b * r - a\<bar> \<le> \<bar>a\<bar> / 2 ^ 53"
proof -
  have "b * r - a = (b - a / r) * r" using assms(2) by (simp add: field_simps)
  then have "\<bar>b * r - a\<bar> = \<bar>b - a / r\<bar> * \<bar>r\<bar>" by (simp add: abs_mult)
  also have "\<dots> \<le> \<bar>a / r\<bar> / 2 ^ 53 * \<bar>r\<bar>"
    using assms(1) by (intro mult_right_mono) simp_all
  also have "\<dots> = \<bar>a\<bar> / 2 ^ 53" using assms(2) by (simp add: abs_divide)
  finally show ?thesis .
qed

text \<open>
  Claim C10, as amended. For every command \<open>(v, w)\<close> and every geometry with \<open>R > 0\<close>
  and \<open>L > 0\<close> for which no operation of \<^verbatim>\<open>uni2diff\<close> overflows or underflows (every
  intermediate result is zero or a normal float), the wheel speeds recover the command
  up to rounding, not exactly: \<open>(vr + vl) * R / 2\<close> differs from \<open>v\<close> by at most
  \<open>5 * (\<bar>v\<bar> + \<bar>L * w\<bar>) / 2 ^ 53\<close>, and \<open>(vr - vl) * R / L\<close> differs from \<open>w\<close> by at
  most \<open>4 * (\<bar>w\<bar> + \<bar>v\<bar> / L) / 2 ^ 53\<close>.
\<close>

theorem uni2diff_binary64_inverse:
  assumes run: "uni2diff_binary64 self (v, w) = Some (Inr (vl, vr))"
      and R: "0 < radius (wheels (robot self))"
      and L: "0 < base_length (wheels (robot self))"
  shows "\<bar>(vr + vl) * radius (wheels (robot self)) / 2 - v\<bar>
           \<le> 5 * (\<bar>v\<bar> + \<bar>base_length (wheels (robot self)) * w\<bar>) / 2 ^ 53
       \<and> \<bar>(vr - vl) * radius (wheels (robot self)) / base_length (wheels (robot self)) - w\<bar>
           \<le> 4 * (\<bar>w\<bar> + \<bar>v\<bar> / base_length (wheels (robot self))) / 2 ^ 53"
proof -
  define r where "r = radius (wheels (robot self))"
  define l where "l = base_length (wheels (robot self))"
  from R L have r: "r \<noteq> 0" "0 < l" by (simp_all add: r_def l_def)
  from run r(1) obtain t1 t2 t3 t4 t6 where ops:
      "binary64 (l * w) = Some t1" "binary64 (2 * v) = Some t2"
      "binary64 (t1 + t2) = Some t3" "binary64 (t3 / 2) = Some t4"
      "binary64 (t4 / r) = Some vr" "binary64 (t1 / r) = Some t6"
      "binary64 (vr - t6) = Some vl"
    by (auto simp add: uni2diff_binary64_def r_def l_def bind_eq_Some_conv)
  note e = ops [THEN binary64_error]
  have h5: "\<bar>vr * r - t4\<bar> \<le> \<bar>t4\<bar> / 2 ^ 53"
    using e(5) r(1) by (rule scaled_error)
  have h6: "\<bar>t6 * r - t1\<bar> \<le> \<bar>t1\<bar> / 2 ^ 53"
    using e(6) r(1) by (rule scaled_error)
  have "\<bar>vl * r - (vr - t6) * r\<bar> = \<bar>vl - (vr - t6)\<bar> * \<bar>r\<bar>"
    by (simp add: abs_mult [symmetric] algebra_simps)
  also have "\<dots> \<le> \<bar>vr - t6\<bar> / 2 ^ 53 * \<bar>r\<bar>"
    using e(7) by (intro mult_right_mono) simp_all
  also have "\<dots> = \<bar>(vr - t6) * r\<bar> / 2 ^ 53" by (simp add: abs_mult)
  finally have h7: "\<bar>vl * r - (vr * r - t6 * r)\<bar> \<le> \<bar>vr * r - t6 * r\<bar> / 2 ^ 53"
    by (simp add: algebra_simps)
  from recovery_bound [OF e(1) e(2) e(3) e(4) h5 h6 h7]
  have lin: "\<bar>(vr * r + vl * r) / 2 - v\<bar> \<le> 5 * (\<bar>v\<bar> + \<bar>l * w\<bar>) / 2 ^ 53"
   and ang: "\<bar>vr * r - vl * r - l * w\<bar> \<le> 4 * (\<bar>l * w\<bar> + \<bar>v\<bar>) / 2 ^ 53"
    by simp_all
  have "(vr - vl) * r / l - w = (vr * r - vl * r - l * w) / l"
    using r(2) by (simp add: field_simps)
  then have "\<bar>(vr - vl) * r / l - w\<bar> = \<bar>vr * r - vl * r - l * w\<bar> / l"
    using r(2) by (simp add: abs_divide)
  also have "\<dots> \<le> 4 * (\<bar>l * w\<bar> + \<bar>v\<bar>) / 2 ^ 53 / l"
    using ang r(2) by (intro divide_right_mono) simp_all
  also have "\<dots> = 4 * (\<bar>w\<bar> + \<bar>v\<bar> / l) / 2 ^ 53"
    using r(2) by (simp add: abs_mult field_simps)
  finally have ang': "\<bar>(vr - vl) * r / l - w\<bar> \<le> 4 * (\<bar>w\<bar> + \<bar>v\<bar> / l) / 2 ^ 53" .
  have "(vr + vl) * r / 2 = (vr * r + vl * r) / 2" by (simp add: algebra_simps)
  with lin ang' show ?thesis unfolding r_def l_def by simp
qed

theorem uni2diff_binary64_inverse_witness:
  "uni2diff_binary64 example_supervisor_binary64
       (5404319552844595 / 2 ^ 54, 3152519739159347 / 2 ^ 52)
     = Some (Inr (3729543441416191 / 2 ^ 48, 4714705859903487 / 2 ^ 48))
   \<and> \<bar>(4714705859903487 / 2 ^ 48 + 3729543441416191 / 2 ^ 48) * (5764607523034235 / 2 ^ 58) / 2
        - 5404319552844595 / 2 ^ 54\<bar>
       \<le> 5 * (\<bar>5404319552844595 / 2 ^ 54\<bar>
               + \<bar>3602879701896397 / 2 ^ 55 * (3152519739159347 / 2 ^ 52)\<bar>) / (2 ^ 53 :: real)
   \<and> \<bar>(4714705859903487 / 2 ^ 48 - 3729543441416191 / 2 ^ 48) * (5764607523034235 / 2 ^ 58)
          / (3602879701896397 / 2 ^ 55) - 3152519739159347 / 2 ^ 52\<bar>
       \<le> 4 * (\<bar>3152519739159347 / 2 ^ 52\<bar>
               + \<bar>5404319552844595 / 2 ^ 54\<bar> / (3602879701896397 / 2 ^ 55)) / (2 ^ 53 :: real)"
proof -
  have R: "0 < radius (wheels (robot example_supervisor_binary64))"
    by (simp add: example_supervisor_binary64_def)
  have L: "0 < base_length (wheels (robot example_supervisor_binary64))"
    by (simp add: example_supervisor_binary64_def)
  from uni2diff_binary64_inverse [OF uni2diff_binary64_example R L]
  have "\<bar>(4714705859903487 / 2 ^ 48 + 3729543441416191 / 2 ^ 48) * (5764607523034235 / 2 ^ 58) / 2
        - 5404319552844595 / 2 ^ 54\<bar>
       \<le> 5 * (\<bar>5404319552844595 / 2 ^ 54\<bar>
               + \<bar>3602879701896397 / 2 ^ 55 * (3152519739159347 / 2 ^ 52)\<bar>) / (2 ^ 53 :: real)
   \<and> \<bar>(4714705859903487 / 2 ^ 48 - 3729543441416191 / 2 ^ 48) * (5764607523034235 / 2 ^ 58)
          / (3602879701896397 / 2 ^ 55) - 3152519739159347 / 2 ^ 52\<bar>
       \<le> 4 * (\<bar>3152519739159347 / 2 ^ 52\<bar>
               + \<bar>5404319552844595 / 2 ^ 54\<bar> / (3602879701896397 / 2 ^ 55)) / (2 ^ 53 :: real)"
    by (simp add: example_supervisor_binary64_def)
  with uni2diff_binary64_example show ?thesis
    by (intro conjI) simp_all
qed

section \<open>The odometry update\<close>

text \<open>
  Claim C1. For every previous pose and every pair of tick deltas \<open>(dtl, dtr)\<close>, with
  \<open>R > 0\<close>, \<open>L > 0\<close> and a positive number of ticks per revolution, \<^verbatim>\<open>estimate_pose\<close>
  computes \<open>dl\<close> and \<open>dr\<close> as the deltas times \<open>2*pi*R / ticks_per_rev\<close>,
  \<open>dtheta = (dr - dl) / L\<close>, \<open>theta_mid = theta_prev + dtheta / 2\<close>,
  \<open>distance = (dr + dl) / 2\<close>, and returns the pose moved by \<open>distance\<close> along the
  midpoint heading \<open>theta_mid\<close>, with heading \<open>theta_prev + dtheta\<close>.
\<close>

theorem estimate_pose_midpoint:
  assumes "0 < radius (wheels (robot self))"
      and "0 < base_length (wheels (robot self))"
      and "0 < ticks_per_rev (wheels (robot self))"
  shows
   "(let dtl = wheels.left_ticks (wheels (robot self)) - left_ticks self;
         dtr = wheels.right_ticks (wheels (robot self)) - right_ticks self;
         R = radius (wheels (robot self));
         L = base_length (wheels (robot self));
         dl = of_int dtl * (2 * pi * R / of_int (ticks_per_rev (wheels (robot self))));
         dr = of_int dtr * (2 * pi * R / of_int (ticks_per_rev (wheels (robot self))));
         dtheta = (dr - dl) / L;
         theta_mid = theta (pose_est self) + dtheta / 2;
         distance = (dr + dl) / 2
     in fst (estimate_pose self) =
          Inr \<lparr>x = x (pose_est self) + distance * cos theta_mid,
               y = y (pose_est self) + distance * sin theta_mid,
               theta = theta (pose_est self) + dtheta\<rparr>)"
  using assms by (simp add: estimate_pose_def Let_def)

text \<open>
  The witness is the scenario with deltas 50 and 100 from the origin: the heading
  changes by \<open>pi / 5\<close> and the step of length \<open>3 * pi / 100\<close> is taken along the heading
  \<open>pi / 10\<close>, half way between the old and the new one.
\<close>

theorem estimate_pose_midpoint_witness:
  "fst (estimate_pose (example_supervisor 50 100)) =
     Inr \<lparr>x = 3 * pi / 100 * cos (pi / 10), y = 3 * pi / 100 * sin (pi / 10), theta = pi / 5\<rparr>"
  using estimate_pose_midpoint [of "example_supervisor 50 100"]
  by (simp add: example_supervisor_def Let_def)

text \<open>
  Claim C5. For every starting pose, when the new tick counts equal the stored ones,
  \<^verbatim>\<open>estimate_pose\<close> returns the previous pose and raises no division fault. The two
  divisors of the method are the base length and the number of ticks per revolution;
  both are positive in every wheel geometry, and the theorem needs them only to differ
  from zero.
\<close>

theorem estimate_pose_zero_motion:
  assumes "wheels.left_ticks (wheels (robot self)) = left_ticks self"
      and "wheels.right_ticks (wheels (robot self)) = right_ticks self"
      and "base_length (wheels (robot self)) \<noteq> 0"
      and "ticks_per_rev (wheels (robot self)) \<noteq> 0"
  shows "fst (estimate_pose self) = Inr (pose_est self)"
  using assms by (simp add: estimate_pose_def Let_def)

theorem estimate_pose_zero_motion_witness:
  "fst (estimate_pose (example_supervisor 0 0)) = Inr \<lparr>x = 0, y = 0, theta = 0\<rparr>"
  using estimate_pose_zero_motion [of "example_supervisor 0 0"]
  by (simp add: example_supervisor_def)

text \<open>
  Every call of \<^verbatim>\<open>estimate_pose\<close>, whether it returns a pose or raises, replaces the
  stored tick counts by the tick counts the robot reports; the object after the call
  differs from the one before in these two registers only.
\<close>

lemma estimate_pose_registers:
  "snd (estimate_pose self) =
     self\<lparr>left_ticks := wheels.left_ticks (wheels (robot self)),
          right_ticks := wheels.right_ticks (wheels (robot self))\<rparr>"
  by (simp add: estimate_pose_def Let_def)

text \<open>
  Claim C9. Every call of the odometry update replaces the stored tick counts by the
  new ones and stores the returned pose as the new estimate, and changes nothing else.
  The docstring of \<^verbatim>\<open>estimate_pose\<close> promises the store as well, but the body never
  assigns \<^verbatim>\<open>self.pose_est\<close>: after 100 new ticks on both wheels, from the origin, the
  method returns a pose \<open>pi / 25\<close> further along the x axis, and the stored estimate is
  still the origin.
\<close>

theorem estimate_pose_does_not_store:
  "fst (estimate_pose (example_supervisor 100 100)) = Inr \<lparr>x = pi / 25, y = 0, theta = 0\<rparr>
   \<and> pose_est (snd (estimate_pose (example_supervisor 100 100))) = \<lparr>x = 0, y = 0, theta = 0\<rparr>
   \<and> pose_est (snd (estimate_pose (example_supervisor 100 100))) \<noteq> \<lparr>x = pi / 25, y = 0, theta = 0\<rparr>"
  by (simp add: estimate_pose_def example_supervisor_def Let_def)

section \<open>Construction\<close>

text \<open>
  Claim C6. For every wheel geometry with \<open>R \<le> 0\<close> or \<open>L \<le> 0\<close> the construction of
  the supervisor raises a \<open>ConfigurationError\<close>, and the error belongs to construction
  only: the methods on the path of \<^verbatim>\<open>execute\<close> that the source holds,
  \<^verbatim>\<open>estimate_pose\<close> and \<^verbatim>\<open>uni2diff\<close>, never raise it. The check sits in the constructor of
  the base class; \<^verbatim>\<open>K3Supervisor.__init__\<close> passes its exception on and adds no check
  of its own.
\<close>

theorem construction_rejects_geometry:
  "(radius (wheels info) \<le> 0 \<or> base_length (wheels info) \<le> 0
      \<longrightarrow> K3Supervisor_init robot_pose info = Inl ConfigurationError)
   \<and> fst (estimate_pose self) \<noteq> Inl ConfigurationError
   \<and> uni2diff self uni \<noteq> Inl ConfigurationError"
  by (auto simp add: K3Supervisor_init_def Supervisor_init_def estimate_pose_def
        uni2diff_def Let_def split: prod.splits)

theorem construction_rejects_geometry_witness:
  "K3Supervisor_init \<lparr>x = 0, y = 0, theta = 0\<rparr>
     \<lparr>wheels = \<lparr>radius = 0, base_length = 1 / 10, ticks_per_rev = 100,
                 wheels.left_ticks = 0, wheels.right_ticks = 0\<rparr>\<rparr> = Inl ConfigurationError"
  using construction_rejects_geometry [of
     "\<lparr>wheels = \<lparr>radius = 0, base_length = 1 / 10, ticks_per_rev = 100,
                 wheels.left_ticks = 0, wheels.right_ticks = 0\<rparr>\<rparr>" "\<lparr>x = 0, y = 0, theta = 0\<rparr>"
     "example_supervisor 0 0" "(0, 0)"]
  by simp

section \<open>Bulk set on the parameter tree\<close>

subsection \<open>The loop of \<^verbatim>\<open>Group.set_value\<close>\<close>

text \<open>The loop never adds or removes a key: it only replaces the leaf stored under one.\<close>

lemma Group_set_value_keys:
  "Group_set_value leafs updates = (outcome, leafs') \<Longrightarrow> map fst leafs' = map fst leafs"
proof (induction updates arbitrary: leafs)
  case Nil
  then show ?case by simp
next
  case (Cons u updates)
  obtain k v where u: "u = (k, v)" by (cases u)
  show ?case
  proof (cases "map_of leafs k")
    case None
    with Cons.prems u show ?thesis by simp
  next
    case (Some leaf)
    then have "(k, leaf) \<in> set leafs" by (rule map_of_SomeD)
    then have k: "k \<in> fst ` set leafs" by force
    obtain r leaf' where sv: "set_value leaf v = (r, leaf')" by (cases "set_value leaf v")
    from k have keys: "map fst (AList.update k leaf' leafs) = map fst leafs"
      by (simp add: update_keys)
    show ?thesis
    proof (cases r)
      case None
      with Cons.prems u Some sv
      have "Group_set_value (AList.update k leaf' leafs) updates = (outcome, leafs')"
        by simp
      from Cons.IH [OF this] keys show ?thesis by simp
    next
      case (Some e)
      with Cons.prems u \<open>map_of leafs k = Some leaf\<close> sv keys show ?thesis by auto
    qed
  qed
qed

text \<open>Updates that went through are simply followed by the remaining ones.\<close>

lemma Group_set_value_append:
  "Group_set_value leafs before = (None, leafs') \<Longrightarrow>
   Group_set_value leafs (before @ rest) = Group_set_value leafs' rest"
proof (induction before arbitrary: leafs)
  case Nil
  then show ?case by simp
next
  case (Cons u before)
  obtain k v where u: "u = (k, v)" by (cases u)
  from Cons.prems u obtain leaf leaf' where
    step: "map_of leafs k = Some leaf" "set_value leaf v = (None, leaf')"
      "Group_set_value (AList.update k leaf' leafs) before = (None, leafs')"
    by (auto split: option.splits prod.splits)
  from Cons.IH [OF step(3)] step(1,2) u show ?case by simp
qed

text \<open>
  Claim C3. For every parameter tree and every sequence of updates, an unknown path or
  an out-of-domain value makes the bulk set fail with a \<open>ValidationError\<close> naming the
  key and leaves every leaf as it was before the call. \<^verbatim>\<open>Group.set_value\<close> applies
  the updates one by one and undoes nothing: with a valid update of \<open>x\<close> before the
  unknown key \<open>zzz\<close>, the call raises \<^verbatim>\<open>KeyError\<close> and \<open>x\<close> has moved from 1 to 5.
\<close>

theorem set_value_not_atomic:
  "get_value (Group [(''x'', FloatEntry 1 \<lparr>minimum = 0, maximum = 10, spin_value = 1\<rparr>)])
     = PList [(''x'', PFloat 1)]
   \<and> set_value (Group [(''x'', FloatEntry 1 \<lparr>minimum = 0, maximum = 10, spin_value = 1\<rparr>)])
                (PList [(''x'', PFloat 5), (''zzz'', PFloat 1)])
     = (Some (KeyError ''zzz''),
        Group [(''x'', FloatEntry 5 \<lparr>minimum = 0, maximum = 10, spin_value = 5\<rparr>)])
   \<and> get_value (Group [(''x'', FloatEntry 5 \<lparr>minimum = 0, maximum = 10, spin_value = 5\<rparr>)])
     = PList [(''x'', PFloat 5)]"
  by (simp add: setValue_def Let_def)

text \<open>
  Claim C3, as amended. For every group and every sequence of updates, when the updates
  before an unknown key all apply, \<^verbatim>\<open>Group.set_value\<close> raises a \<^verbatim>\<open>KeyError\<close> naming that
  key; the group is then in the state those earlier updates produced, and the updates
  after the key are not applied. A number outside the range of a numeric leaf is no
  error at all.
\<close>

theorem set_value_unknown_key:
  "(set_value (Group leafs) (PList before) = (None, Group leafs') \<and> map_of leafs k = None
      \<longrightarrow> set_value (Group leafs) (PList (before @ (k, v) # rest))
            = (Some (KeyError k), Group leafs'))
   \<and> fst (set_value (FloatEntry ui_value control) (PFloat r)) = None"
proof (intro conjI impI)
  assume a: "set_value (Group leafs) (PList before) = (None, Group leafs') \<and> map_of leafs k = None"
  then have run: "Group_set_value leafs before = (None, leafs')"
    by (auto split: prod.splits)
  from Group_set_value_keys [OF run] a have "map_of leafs' k = None"
    by (metis map_of_eq_None_iff list.set_map)
  with Group_set_value_append [OF run, of "(k, v) # rest"]
  show "set_value (Group leafs) (PList (before @ (k, v) # rest)) = (Some (KeyError k), Group leafs')"
    by simp
next
  show "fst (set_value (FloatEntry ui_value control) (PFloat r)) = None"
    by (simp add: Let_def)
qed

theorem set_value_unknown_key_witness:
  "set_value (Group [(''kp'', FloatEntry 1 \<lparr>minimum = 0, maximum = 10, spin_value = 1\<rparr>),
                     (''on'', BoolEntry False False)])
             (PList ([(''on'', PBool True)] @ (''kd'', PFloat 2) # [(''kp'', PFloat 3)]))
     = (Some (KeyError ''kd''),
        Group [(''kp'', FloatEntry 1 \<lparr>minimum = 0, maximum = 10, spin_value = 1\<rparr>),
               (''on'', BoolEntry False True)])"
  using set_value_unknown_key [of
      "[(''kp'', FloatEntry 1 \<lparr>minimum = 0, maximum = 10, spin_value = 1\<rparr>),
        (''on'', BoolEntry False False)]"
      "[(''on'', PBool True)]"
      "[(''kp'', FloatEntry 1 \<lparr>minimum = 0, maximum = 10, spin_value = 1\<rparr>),
        (''on'', BoolEntry False True)]"
      "''kd''" "PFloat 2" "[(''kp'', PFloat 3)]"]
  by simp

text \<open>
  Claim C4. For a numeric leaf with bounds \<open>[0, 10]\<close>, a bulk set with the value 15
  fails (the value is rejected, not clamped), and one with the value 10 succeeds. The
  spin box of a \<^verbatim>\<open>FloatEntry\<close> takes 15 without an exception and stores 10.
\<close>

theorem set_value_15_accepted:
  "set_value (Group [(''x'', FloatEntry 1 \<lparr>minimum = 0, maximum = 10, spin_value = 1\<rparr>)])
             (PList [(''x'', PFloat 15)])
     = (None, Group [(''x'', FloatEntry 10 \<lparr>minimum = 0, maximum = 10, spin_value = 10\<rparr>)])"
  by (simp add: setValue_def Let_def)

text \<open>
  Claim C4, as amended. For a numeric leaf with bounds \<open>[0, 10]\<close>, whatever its key and
  its value before, a bulk set with the value 15 succeeds and the leaf then reads 10
  (the value is clamped to the upper bound, not rejected); a bulk set with the value 10
  succeeds and the leaf then reads 10 (the upper bound is inclusive).
\<close>

theorem set_value_clamps:
  "fst (set_value (Group [(k, FloatEntry ui_value \<lparr>minimum = 0, maximum = 10, spin_value = v0\<rparr>)])
                  (PList [(k, PFloat 15)])) = None
   \<and> get_value (snd (set_value
         (Group [(k, FloatEntry ui_value \<lparr>minimum = 0, maximum = 10, spin_value = v0\<rparr>)])
         (PList [(k, PFloat 15)]))) = PList [(k, PFloat 10)]
   \<and> fst (set_value (Group [(k, FloatEntry ui_value \<lparr>minimum = 0, maximum = 10, spin_value = v0\<rparr>)])
                    (PList [(k, PFloat 10)])) = None
   \<and> get_value (snd (set_value
         (Group [(k, FloatEntry ui_value \<lparr>minimum = 0, maximum = 10, spin_value = v0\<rparr>)])
         (PList [(k, PFloat 10)]))) = PList [(k, PFloat 10)]"
  by (simp add: setValue_def Let_def)

section \<open>Reading a tree and writing the result back\<close>

subsection \<open>Spin boxes and radio buttons\<close>

lemma setValue_in_range:
  "minimum c \<le> spin_value c \<Longrightarrow> spin_value c \<le> maximum c \<Longrightarrow> setValue c (spin_value c) = c"
  by (simp add: setValue_def Let_def)

lemma index_Some: "index xs a = Some i \<Longrightarrow> i < length xs \<and> xs ! i = a"
  by (induction xs arbitrary: i) (auto split: if_splits)

lemma index_mem: "a \<in> set xs \<Longrightarrow> \<exists>i. index xs a = Some i"
  by (induction xs) auto

lemma checked_text_mem: "checked_text rs = Some t \<Longrightarrow> t \<in> fst ` set rs"
  by (induction rs rule: checked_text.induct) (auto split: if_splits)

lemma checked_text_None: "checked_text rs = None \<Longrightarrow> i < length rs \<Longrightarrow> \<not> snd (rs ! i)"
  by (induction rs arbitrary: i rule: checked_text.induct)
     (auto split: if_splits simp: nth_Cons')

lemma checked_text_select:
  "i < length rs \<Longrightarrow> checked_text ((map (\<lambda>r. (fst r, False)) rs)[i := (t, True)]) = Some t"
  by (induction rs arbitrary: i) (auto split: nat.splits simp: list_update_code)

text \<open>
  Toggling the button that carries the text read from the entry leaves that text the
  one that is read: either the button is the checked one already, or no button before
  it is checked and it becomes the only checked one.
\<close>

lemma toggle_selects:
  assumes "i < length radios" and "fst (radios ! i) = s"
      and "checked_text radios = Some s \<or> checked_text radios = None"
  shows "\<exists>radios'. toggle radios i = Inr radios' \<and> checked_text radios' = Some s"
proof (cases "snd (radios ! i)")
  case True
  with assms(1,3) have "checked_text radios = Some s"
    using checked_text_None by blast
  with True assms(1) show ?thesis by (simp add: toggle_def)
next
  case False
  with assms(1,2) show ?thesis by (simp add: toggle_def checked_text_select)
qed

lemma ChoiceEntry_roundtrips:
  assumes "valid (ChoiceEntry vl uv radios)"
  shows "roundtrips (ChoiceEntry vl uv radios)"
proof -
  from assms have texts: "map fst radios = vl" by simp
  obtain s where s: "get_value (ChoiceEntry vl uv radios) = PStr s" "s \<in> set vl"
    and ct: "checked_text radios = Some s \<or> checked_text radios = None"
  proof (cases "checked_text radios")
    case None
    with assms obtain s where "uv = PStr s" "s \<in> set vl" by auto
    with None that show ?thesis by simp
  next
    case (Some t)
    with checked_text_mem [OF Some] texts that show ?thesis by force
  qed
  from s(2) obtain i where i: "index vl s = Some i" using index_mem by fastforce
  then have "i < length vl" "vl ! i = s" using index_Some by fastforce+
  with texts have "i < length radios" "fst (radios ! i) = s"
    by (auto simp: nth_map [symmetric] simp del: nth_map)
  from toggle_selects [OF this ct] obtain radios' where
    "toggle radios i = Inr radios'" "checked_text radios' = Some s" by blast
  with s(1) i show ?thesis by (simp add: roundtrips_def)
qed

subsection \<open>Groups\<close>

lemma Group_valid_iff: "Group_valid leafs \<longleftrightarrow> (\<forall>(k, e) \<in> set leafs. valid e)"
  by (induction leafs) auto

lemma Group_get_value_update:
  "map_of leafs k = Some e \<Longrightarrow> get_value e' = get_value e \<Longrightarrow>
   Group_get_value (AList.update k e' leafs) = Group_get_value leafs"
  by (induction leafs) (auto split: if_splits)

text \<open>
  The loop over the values read from the leafs still to be written, \<open>todo\<close>, run on the
  group as the earlier iterations left it: each of those leafs is still the one stored
  under its key, because the keys differ.
\<close>

lemma Group_roundtrips_loop:
  assumes "distinct (map fst todo)"
      and "\<forall>(k, e) \<in> set todo. map_of leafs k = Some e \<and> roundtrips e"
  shows "fst (Group_set_value leafs (Group_get_value todo)) = None
       \<and> Group_get_value (snd (Group_set_value leafs (Group_get_value todo)))
           = Group_get_value leafs"
  using assms
proof (induction todo arbitrary: leafs)
  case Nil
  then show ?case by simp
next
  case (Cons p todo)
  obtain k e where p: "p = (k, e)" by (cases p)
  from Cons.prems p have here: "map_of leafs k = Some e" "roundtrips e" by auto
  obtain e' where e': "set_value e (get_value e) = (None, e')" "get_value e' = get_value e"
    using here(2) unfolding roundtrips_def by (cases "set_value e (get_value e)") auto
  let ?leafs = "AList.update k e' leafs"
  have "\<forall>(k2, e2) \<in> set todo. map_of ?leafs k2 = Some e2 \<and> roundtrips e2"
  proof (clarify)
    fix k2 e2 assume mem: "(k2, e2) \<in> set todo"
    with Cons.prems(1) p have "k2 \<noteq> k" by force
    with mem Cons.prems(2) show "map_of ?leafs k2 = Some e2 \<and> roundtrips e2"
      by (auto simp: update_conv')
  qed
  moreover from Cons.prems(1) have "distinct (map fst todo)" by simp
  ultimately have "fst (Group_set_value ?leafs (Group_get_value todo)) = None
       \<and> Group_get_value (snd (Group_set_value ?leafs (Group_get_value todo)))
           = Group_get_value ?leafs"
    by (rule Cons.IH [rotated])
  with here(1) e' p show ?case
    by (simp add: Group_get_value_update)
qed

lemma roundtrips_valid: "valid e \<Longrightarrow> roundtrips e"
proof (induction e)
  case (Group leafs)
  from Group.prems have d: "distinct (map fst leafs)" and v: "\<forall>(k, e) \<in> set leafs. valid e"
    by (simp_all add: Group_valid_iff)
  have "\<forall>(k, e) \<in> set leafs. map_of leafs k = Some e \<and> roundtrips e"
  proof (clarify)
    fix k e assume mem: "(k, e) \<in> set leafs"
    with d have "map_of leafs k = Some e" by simp
    moreover from mem v Group.IH [of "(k, e)" e] have "roundtrips e" by auto
    ultimately show "map_of leafs k = Some e \<and> roundtrips e" ..
  qed
  from Group_roundtrips_loop [OF d this] show ?case
    by (auto simp add: roundtrips_def split: prod.splits)
next
  case (ChoiceEntry vl uv radios)
  then show ?case by (rule ChoiceEntry_roundtrips)
qed (simp_all add: roundtrips_def setValue_in_range)

text \<open>
  Claim C7. For every parameter tree in a valid state, setting the tree to the record
  just read from it succeeds and is a no-op: the snapshot read afterwards is the one
  read before. The tree is a \<^verbatim>\<open>Group\<close> or any of its entries, the record is the result
  of \<^verbatim>\<open>get_value\<close>, which has the shape \<^verbatim>\<open>set_value\<close> takes.
\<close>

theorem set_value_get_value_roundtrip:
  assumes "valid tree"
  shows "fst (set_value tree (get_value tree)) = None
       \<and> get_value (snd (set_value tree (get_value tree))) = get_value tree"
  using roundtrips_valid [OF assms] by (simp add: roundtrips_def)

theorem set_value_get_value_roundtrip_witness:
  "valid example_tree
   \<and> fst (set_value example_tree (get_value example_tree)) = None
   \<and> get_value (snd (set_value example_tree (get_value example_tree))) = get_value example_tree"
proof -
  have v: "valid example_tree"
    by (simp add: example_tree_def)
  from set_value_get_value_roundtrip [OF v] v show ?thesis by simp
qed

end
